theory Spec2Isabelle
  imports Main
begin

section \<open>mycloud: the detector registry, detection and key resolution of main.go\<close>

text \<open>
  The development embeds \<^verbatim>\<open>src/main.go\<close>. Everything the program reads from outside
  (the HTTP client, the file system, the local command, the JSON decoder of the standard
  library) is a field of an environment record. Every request to the HTTP client, the
  file system or the local command is recorded as an event, so that "performs no I/O" is
  a statement about the list of events. A nil pointer dereference is the value
  \<open>NilDeref\<close>. Standard error (the verbose log and the usage text) is not modelled.
\<close>

subsection \<open>The outside world\<close>

text \<open>A Go \<^verbatim>\<open>error\<close> is carried as its message.\<close>

type_synonym error = string

text \<open>
  The part of \<^verbatim>\<open>http.Response\<close> the program reads. \<open>header\<close> maps a canonical
  header name to its values; \<open>body\<close> is what \<^verbatim>\<open>ioutil.ReadAll(resp.Body)\<close> gives.
\<close>

record response =
  statusCode :: int
  status :: string
  header :: "(string \<times> string list) list"
  body :: "error + string"

text \<open>
  \<^verbatim>\<open>client.Do\<close> returns a response and an error; with a nil error the response is
  not nil (the contract of net/http), with an error it may or may not be.
\<close>

datatype do_result = DoErr "response option" error | DoOk response

record env =
  clientDo :: "string \<Rightarrow> (string \<times> string) list \<Rightarrow> do_result"
  osStat :: "string \<Rightarrow> error option"
  execOutput :: "string \<Rightarrow> string list \<Rightarrow> error + string"
  jsonDecode :: "string \<Rightarrow> (string \<rightharpoonup> string)"
  parseError :: "string \<Rightarrow> error option"

text \<open>
  \<open>clientDo e url headers\<close>: a GET of \<open>url\<close> with the request headers, under the
  one second timeout of \<^verbatim>\<open>getUrl\<close>. \<open>osStat e path\<close>: the error of
  \<^verbatim>\<open>os.Stat(path)\<close>. \<open>execOutput e cmd args\<close>: \<^verbatim>\<open>exec.Command(cmd, args).Output()\<close>.
  \<open>jsonDecode e s\<close>: the map \<^verbatim>\<open>m\<close> after
  \<^verbatim>\<open>json.NewDecoder(strings.NewReader(s)).Decode(&m)\<close> with \<^verbatim>\<open>m\<close> a nil
  \<^verbatim>\<open>map[string]string\<close> before (the error of Decode is dropped by the caller).
  \<open>parseError e url\<close>: the error of \<^verbatim>\<open>url.Parse(url)\<close>.
\<close>

datatype io_event =
  HttpGet string "(string \<times> string) list"
| Stat string
| Exec string "string list"

datatype 'a exec = NilDeref | Done 'a

text \<open>\<^verbatim>\<open>http.Header.Get\<close>: the first value stored under the key, or the empty string.\<close>

definition Header_Get :: "(string \<times> string list) list \<Rightarrow> string \<Rightarrow> string" where
  "Header_Get h k = (case map_of h k of None \<Rightarrow> [] | Some vs \<Rightarrow> (case vs of [] \<Rightarrow> [] | v # _ \<Rightarrow> v))"

definition nl :: string where
  "nl = [CHR 0x0A]"

subsection \<open>getUrl\<close>

text \<open>
  The URLs the program writes out in full. They are well-formed, and
  \<^verbatim>\<open>url.Parse\<close> accepts them.
\<close>

definition literalUrls :: "string list" where
  "literalUrls =
     [''http://169.254.169.254/latest/meta-data/instance-id'',
      ''http://169.254.169.254/openstack/2012-08-10/meta_data.json'',
      ''http://169.254.169.254/metadata/v1/id'',
      ''http://metadata.google.internal/'']"

text \<open>
  The error of \<^verbatim>\<open>http.NewRequest("GET", url, nil)\<close>, which is the error of
  \<^verbatim>\<open>url.Parse\<close>: none for a URL written out in the program, the environment's
  answer for any other (a base URL followed by the requested key). With an error the
  request returned is nil.
\<close>

definition http_NewRequest :: "env \<Rightarrow> string \<Rightarrow> error option" where
  "http_NewRequest e url = (if url \<in> set literalUrls then None else parseError e url)"

text \<open>
  \<^verbatim>\<open>getUrl\<close> drops the error of \<^verbatim>\<open>http.NewRequest\<close> (line 36). With a nil
  request, \<^verbatim>\<open>req.Header.Add\<close> (line 38, when there is a header) or
  \<^verbatim>\<open>client.Do(req)\<close> (line 40) dereferences nil before anything is sent.
\<close>

definition getUrl ::
  "env \<Rightarrow> string \<Rightarrow> (string \<times> string) list \<Rightarrow>
     (string option \<times> response option \<times> error option) exec \<times> io_event list"
where
  "getUrl e url headers =
     (case http_NewRequest e url of
        Some _ \<Rightarrow> (NilDeref, [])
      | None \<Rightarrow>
          (Done (case clientDo e url headers of
                   DoErr resp err \<Rightarrow> (None, resp, Some err)
                 | DoOk resp \<Rightarrow>
                     if statusCode resp \<noteq> 200
                     then (None, Some resp,
                           Some (''An error getting the url '' @ url @ '' : '' @ status resp))
                     else (case body resp of
                             Inl err \<Rightarrow> (None, Some resp, Some err)
                           | Inr out \<Rightarrow> (Some out, Some resp, None))),
           [HttpGet url headers]))"

subsection \<open>The probes\<close>

record BaseCloud =
  name :: string
  isMyCloud :: bool
  supportsKey :: bool

record SimpleUrlBasedCloud = BaseCloud +
  baseUrl :: string
  testUrl :: string
  metadata :: "string option"

text \<open>The dynamic type behind a \<^verbatim>\<open>CloudDetector\<close> interface value.\<close>

datatype CloudDetector =
  AWSCloud SimpleUrlBasedCloud
| GCECloud BaseCloud
| AzureCloud BaseCloud
| OpenStackCloud SimpleUrlBasedCloud
| DigitalOceanCloud SimpleUrlBasedCloud
| JoyentCloud BaseCloud

text \<open>Go's zero values: the empty string, false, nil.\<close>

definition zeroBaseCloud :: BaseCloud where
  "zeroBaseCloud = \<lparr>name = [], isMyCloud = False, supportsKey = False\<rparr>"

definition zeroSimpleUrlBasedCloud :: SimpleUrlBasedCloud where
  "zeroSimpleUrlBasedCloud =
     \<lparr>name = [], isMyCloud = False, supportsKey = False, baseUrl = [], testUrl = [], metadata = None\<rparr>"

definition NewAWSCloud :: CloudDetector where
  "NewAWSCloud = AWSCloud (zeroSimpleUrlBasedCloud
     \<lparr>baseUrl := ''http://169.254.169.254/latest/meta-data/'',
      testUrl := ''http://169.254.169.254/latest/meta-data/instance-id'',
      name := ''AWS'',
      supportsKey := True\<rparr>)"

definition NewOpenStackCloud :: CloudDetector where
  "NewOpenStackCloud = OpenStackCloud (zeroSimpleUrlBasedCloud
     \<lparr>testUrl := ''http://169.254.169.254/openstack/2012-08-10/meta_data.json'',
      supportsKey := True,
      name := ''OpenStack''\<rparr>)"

definition NewDigitalOceanCloud :: CloudDetector where
  "NewDigitalOceanCloud = DigitalOceanCloud (zeroSimpleUrlBasedCloud
     \<lparr>baseUrl := ''http://169.254.169.254/metadata/v1/'',
      testUrl := ''http://169.254.169.254/metadata/v1/id'',
      name := ''Digital Ocean'',
      supportsKey := True\<rparr>)"

definition NewGCECloud :: CloudDetector where
  "NewGCECloud = GCECloud (zeroBaseCloud\<lparr>supportsKey := True, name := ''GCE''\<rparr>)"

definition NewJoyentCloud :: CloudDetector where
  "NewJoyentCloud = JoyentCloud (zeroBaseCloud\<lparr>supportsKey := True, name := ''Joyent''\<rparr>)"

text \<open>\<^verbatim>\<open>azureCloud := AzureCloud{BaseCloud{name: "Azure"}}\<close> in \<^verbatim>\<open>setupClouds\<close>.\<close>

definition azureCloud :: CloudDetector where
  "azureCloud = AzureCloud (zeroBaseCloud\<lparr>name := ''Azure''\<rparr>)"

definition setupClouds :: "CloudDetector list" where
  "setupClouds =
     [NewAWSCloud, NewGCECloud, azureCloud, NewOpenStackCloud, NewDigitalOceanCloud, NewJoyentCloud]"

subsubsection \<open>The methods of BaseCloud, promoted to every probe\<close>

fun cloudDescription :: "CloudDetector \<Rightarrow> string" where
  "cloudDescription (AWSCloud c) = name c"
| "cloudDescription (GCECloud c) = name c"
| "cloudDescription (AzureCloud c) = name c"
| "cloudDescription (OpenStackCloud c) = name c"
| "cloudDescription (DigitalOceanCloud c) = name c"
| "cloudDescription (JoyentCloud c) = name c"

fun isEffectiveCloud :: "CloudDetector \<Rightarrow> bool" where
  "isEffectiveCloud (AWSCloud c) = isMyCloud c"
| "isEffectiveCloud (GCECloud c) = isMyCloud c"
| "isEffectiveCloud (AzureCloud c) = isMyCloud c"
| "isEffectiveCloud (OpenStackCloud c) = isMyCloud c"
| "isEffectiveCloud (DigitalOceanCloud c) = isMyCloud c"
| "isEffectiveCloud (JoyentCloud c) = isMyCloud c"

fun supportsKeys :: "CloudDetector \<Rightarrow> bool" where
  "supportsKeys (AWSCloud c) = supportsKey c"
| "supportsKeys (GCECloud c) = supportsKey c"
| "supportsKeys (AzureCloud c) = supportsKey c"
| "supportsKeys (OpenStackCloud c) = supportsKey c"
| "supportsKeys (DigitalOceanCloud c) = supportsKey c"
| "supportsKeys (JoyentCloud c) = supportsKey c"

subsubsection \<open>detectEffectiveCloud\<close>

definition SimpleUrlBasedCloud_detectEffectiveCloud ::
  "env \<Rightarrow> SimpleUrlBasedCloud \<Rightarrow> SimpleUrlBasedCloud exec \<times> io_event list"
where
  "SimpleUrlBasedCloud_detectEffectiveCloud e c =
     (case getUrl e (testUrl c) [] of
        (NilDeref, evs) \<Rightarrow> (NilDeref, evs)
      | (Done (metadata', _, err), evs) \<Rightarrow>
          (Done (c\<lparr>metadata := metadata', isMyCloud := (err = None)\<rparr>), evs))"

definition GCECloud_detectEffectiveCloud ::
  "env \<Rightarrow> BaseCloud \<Rightarrow> BaseCloud exec \<times> io_event list"
where
  "GCECloud_detectEffectiveCloud e c0 =
     (let c = c0\<lparr>supportsKey := True\<rparr>;
          url = ''http://metadata.google.internal/'';
          headers = [(''Metadata-Flavor'', ''Google'')]
      in case getUrl e url headers of
           (NilDeref, evs) \<Rightarrow> (NilDeref, evs)
         | (Done (_, resp, err), evs) \<Rightarrow>
             if err \<noteq> None then (Done (c\<lparr>isMyCloud := False\<rparr>), evs)
             else (case resp of
                     None \<Rightarrow> (NilDeref, evs)
                   | Some r \<Rightarrow>
                       (Done (c\<lparr>isMyCloud := (Header_Get (header r) ''Metadata-Flavor'' = ''Google'')\<rparr>),
                        evs)))"

definition AzureCloud_detectEffectiveCloud ::
  "env \<Rightarrow> BaseCloud \<Rightarrow> BaseCloud exec \<times> io_event list"
where
  "AzureCloud_detectEffectiveCloud e c0 =
     (let c = c0\<lparr>supportsKey := True\<rparr>;
          c = c\<lparr>isMyCloud := False\<rparr>
      in (Done (if osStat e ''/var/lib/waagent/ovf-env.xml'' = None then c\<lparr>isMyCloud := True\<rparr> else c),
          [Stat ''/var/lib/waagent/ovf-env.xml'']))"

definition JoyentCloud_detectEffectiveCloud ::
  "env \<Rightarrow> BaseCloud \<Rightarrow> BaseCloud exec \<times> io_event list"
where
  "JoyentCloud_detectEffectiveCloud e c0 =
     (let c = c0\<lparr>supportsKey := True\<rparr>;
          c = c\<lparr>isMyCloud := False\<rparr>
      in (Done (if osStat e ''/usr/sbin/mdata-get'' = None then c\<lparr>isMyCloud := True\<rparr> else c),
          [Stat ''/usr/sbin/mdata-get'']))"

text \<open>Applying a constructor of \<open>CloudDetector\<close> to the probe a method returns.\<close>

fun lift :: "('a \<Rightarrow> CloudDetector) \<Rightarrow> 'a exec \<times> io_event list \<Rightarrow> CloudDetector exec \<times> io_event list" where
  "lift K (NilDeref, evs) = (NilDeref, evs)"
| "lift K (Done c, evs) = (Done (K c), evs)"

text \<open>The dispatch of \<^verbatim>\<open>cd.detectEffectiveCloud()\<close> on the dynamic type.\<close>

fun detectEffectiveCloud :: "env \<Rightarrow> CloudDetector \<Rightarrow> CloudDetector exec \<times> io_event list" where
  "detectEffectiveCloud e (AWSCloud c) = lift AWSCloud (SimpleUrlBasedCloud_detectEffectiveCloud e c)"
| "detectEffectiveCloud e (GCECloud c) = lift GCECloud (GCECloud_detectEffectiveCloud e c)"
| "detectEffectiveCloud e (AzureCloud c) = lift AzureCloud (AzureCloud_detectEffectiveCloud e c)"
| "detectEffectiveCloud e (OpenStackCloud c) = lift OpenStackCloud (SimpleUrlBasedCloud_detectEffectiveCloud e c)"
| "detectEffectiveCloud e (DigitalOceanCloud c) = lift DigitalOceanCloud (SimpleUrlBasedCloud_detectEffectiveCloud e c)"
| "detectEffectiveCloud e (JoyentCloud c) = lift JoyentCloud (JoyentCloud_detectEffectiveCloud e c)"

subsubsection \<open>getKey\<close>

type_synonym key_result = "(string option \<times> error option) exec \<times> io_event list"

definition BaseCloud_getKey :: "BaseCloud \<Rightarrow> string \<Rightarrow> key_result" where
  "BaseCloud_getKey c k = (Done (None, Some ''Cloud does not support keys''), [])"

definition SimpleUrlBasedCloud_getKey :: "env \<Rightarrow> SimpleUrlBasedCloud \<Rightarrow> string \<Rightarrow> key_result" where
  "SimpleUrlBasedCloud_getKey e c k =
     (let url = baseUrl c @ k
      in case getUrl e url [] of
           (NilDeref, evs) \<Rightarrow> (NilDeref, evs)
         | (Done (metadata', _, err), evs) \<Rightarrow> (Done (metadata', err), evs))"

definition OpenStackCloud_getKey :: "env \<Rightarrow> SimpleUrlBasedCloud \<Rightarrow> string \<Rightarrow> key_result" where
  "OpenStackCloud_getKey e c k =
     (case metadata c of
        None \<Rightarrow> (NilDeref, [])
      | Some s \<Rightarrow>
          (let m = jsonDecode e s;
               v = (case m k of None \<Rightarrow> [] | Some x \<Rightarrow> x)
           in if v = [] then (Done (None, Some (''No such key '' @ k)), [])
              else (Done (Some v, None), [])))"

definition GCECloud_getKey :: "env \<Rightarrow> BaseCloud \<Rightarrow> string \<Rightarrow> key_result" where
  "GCECloud_getKey e c k =
     (let url = ''http://metadata.google.internal/computeMetadata/v1/'' @ k;
          headers = [(''Metadata-Flavor'', ''Google'')]
      in case getUrl e url headers of
           (NilDeref, evs) \<Rightarrow> (NilDeref, evs)
         | (Done (metadata', _, err), evs) \<Rightarrow> (Done (metadata', err), evs))"

definition JoyentCloud_getKey :: "env \<Rightarrow> BaseCloud \<Rightarrow> string \<Rightarrow> key_result" where
  "JoyentCloud_getKey e c k =
     (let cmd = ''/usr/sbin/mdata-get''
      in case execOutput e cmd [k] of
           Inl err \<Rightarrow> (Done (None, Some err), [Exec cmd [k]])
         | Inr out \<Rightarrow> (Done (Some out, None), [Exec cmd [k]]))"

text \<open>
  The dispatch of \<^verbatim>\<open>cd.getKey(key)\<close>: AWS and Digital Ocean take the method of
  SimpleUrlBasedCloud, Azure the one of BaseCloud, the others their own.
\<close>

fun getKey :: "env \<Rightarrow> CloudDetector \<Rightarrow> string \<Rightarrow> key_result" where
  "getKey e (AWSCloud c) k = SimpleUrlBasedCloud_getKey e c k"
| "getKey e (GCECloud c) k = GCECloud_getKey e c k"
| "getKey e (AzureCloud c) k = BaseCloud_getKey c k"
| "getKey e (OpenStackCloud c) k = OpenStackCloud_getKey e c k"
| "getKey e (DigitalOceanCloud c) k = SimpleUrlBasedCloud_getKey e c k"
| "getKey e (JoyentCloud c) k = JoyentCloud_getKey e c k"

subsection \<open>Options\<close>

record CommandOptions =
  verbose :: bool
  key :: string

text \<open>
  What \<^verbatim>\<open>flag.Parse\<close> found on a command line it accepts: the value given to
  \<^verbatim>\<open>--key\<close> and to \<^verbatim>\<open>--verbose\<close>, if any.
\<close>

record CommandLine =
  keyFlag :: "string option"
  verboseFlag :: "bool option"

text \<open>\<^verbatim>\<open>flag.String\<close> and \<^verbatim>\<open>flag.Bool\<close>: the default unless the flag was given.\<close>

definition flag_value :: "'a \<Rightarrow> 'a option \<Rightarrow> 'a" where
  "flag_value dflt given = (case given of None \<Rightarrow> dflt | Some v \<Rightarrow> v)"

text \<open>
  \<^verbatim>\<open>setupOptions\<close> without the usage text it builds for standard error; the result is
  the value it stores in \<^verbatim>\<open>globalOpts\<close>.
\<close>

definition setupOptions :: "CloudDetector list \<Rightarrow> CommandLine \<Rightarrow> CommandOptions" where
  "setupOptions cdList args =
     (let key' = flag_value [] (keyFlag args);
          verbose' = flag_value False (verboseFlag args)
      in \<lparr>verbose = verbose', key = key'\<rparr>)"

subsection \<open>main\<close>

text \<open>
  How the process ends: \<open>Exit out rc\<close> is \<^verbatim>\<open>os.Exit(rc)\<close> with \<open>out\<close> written to
  standard output; \<open>Crash out\<close> is a run-time panic after \<open>out\<close> was written.
\<close>

datatype outcome = Exit string int | Crash string

text \<open>
  The detection phase. Each goroutine runs \<^verbatim>\<open>cd.detectEffectiveCloud()\<close> on its own
  element of \<^verbatim>\<open>cdList\<close> and writes nothing else; a schedule is the order in which
  the goroutines run, each taken as one step, and \<^verbatim>\<open>wg.Wait()\<close> returns once all
  have run. The environment answers a request the same way whatever ran before it.
\<close>

fun runTasks :: "env \<Rightarrow> nat list \<Rightarrow> CloudDetector list \<Rightarrow> CloudDetector list exec \<times> io_event list" where
  "runTasks e [] cdList = (Done cdList, [])"
| "runTasks e (i # sched) cdList =
     (case detectEffectiveCloud e (cdList ! i) of
        (NilDeref, evs) \<Rightarrow> (NilDeref, evs)
      | (Done cd', evs) \<Rightarrow>
          (case runTasks e sched (cdList[i := cd']) of (r, evs') \<Rightarrow> (r, evs @ evs')))"

text \<open>A schedule of \<open>n\<close> goroutines runs each of them once.\<close>

definition valid_schedule :: "nat \<Rightarrow> nat list \<Rightarrow> bool" where
  "valid_schedule n sched = (distinct sched \<and> set sched = {0..<n})"

text \<open>The loop of \<^verbatim>\<open>main\<close> after \<^verbatim>\<open>wg.Wait()\<close>, lines 330 to 350.\<close>

fun scan :: "env \<Rightarrow> CommandOptions \<Rightarrow> CloudDetector list \<Rightarrow> outcome \<times> io_event list" where
  "scan e opts [] = (Exit (''UNKNOWN'' @ nl) 1, [])"
| "scan e opts (cd # cdList) =
     (if isEffectiveCloud cd then
        (let out = cloudDescription cd @ nl
         in if key opts \<noteq> [] then
              (case getKey e cd (key opts) of
                 (NilDeref, evs) \<Rightarrow> (Crash out, evs)
               | (Done (val, err), evs) \<Rightarrow>
                   if err \<noteq> None then (Exit (out @ ''UNKNOWN'' @ nl) 1, evs)
                   else (case val of
                           None \<Rightarrow> (Crash out, evs)
                         | Some v \<Rightarrow> (Exit (out @ v @ nl) 0, evs)))
            else (Exit out 0, []))
      else scan e opts cdList)"

definition main :: "env \<Rightarrow> nat list \<Rightarrow> CommandLine \<Rightarrow> outcome \<times> io_event list" where
  "main e sched args =
     (let cdList = setupClouds;
          opts = setupOptions cdList args
      in case runTasks e sched cdList of
           (NilDeref, evs) \<Rightarrow> (Crash [], evs)
         | (Done cds, evs) \<Rightarrow> (case scan e opts cds of (r, evs') \<Rightarrow> (r, evs @ evs')))"

subsection \<open>Auxiliary definitions\<close>

text \<open>What reached standard output.\<close>

fun stdout :: "outcome \<Rightarrow> string" where
  "stdout (Exit out rc) = out"
| "stdout (Crash out) = out"

text \<open>The probe a detection task leaves in the registry.\<close>

definition detected :: "env \<Rightarrow> CloudDetector \<Rightarrow> CloudDetector" where
  "detected e cd = (case fst (detectEffectiveCloud e cd) of NilDeref \<Rightarrow> cd | Done cd' \<Rightarrow> cd')"

text \<open>The test URL of a URL-based probe is one the program writes out in full.\<close>

fun urls_ok :: "CloudDetector \<Rightarrow> bool" where
  "urls_ok (AWSCloud c) = (testUrl c \<in> set literalUrls)"
| "urls_ok (OpenStackCloud c) = (testUrl c \<in> set literalUrls)"
| "urls_ok (DigitalOceanCloud c) = (testUrl c \<in> set literalUrls)"
| "urls_ok cd = True"

text \<open>A URL-based probe that reports presence holds a cached body.\<close>

fun metadata_ok :: "CloudDetector \<Rightarrow> bool" where
  "metadata_ok (AWSCloud c) = (isMyCloud c \<longrightarrow> metadata c \<noteq> None)"
| "metadata_ok (OpenStackCloud c) = (isMyCloud c \<longrightarrow> metadata c \<noteq> None)"
| "metadata_ok (DigitalOceanCloud c) = (isMyCloud c \<longrightarrow> metadata c \<noteq> None)"
| "metadata_ok cd = True"



subsection \<open>Example environments\<close>

text \<open>
  A decoder for the examples: it decodes a flat JSON object whose keys and values are
  string literals without escapes, a later duplicate key replacing an earlier one, as
  encoding/json does. Any other body gives the empty map. It stands for the library
  only at the concrete flat bodies below; the theorems are stated for any decoder.
\<close>

datatype token = LBrace | RBrace | Colon | Comma | Str string

fun lex :: "string option \<Rightarrow> string \<Rightarrow> token list option" where
  "lex None [] = Some []"
| "lex (Some acc) [] = None"
| "lex None (c # cs) =
     (if c = CHR 0x22 then lex (Some []) cs
      else if c = CHR '' '' \<or> c = CHR 0x09 \<or> c = CHR 0x0A \<or> c = CHR 0x0D then lex None cs
      else if c = CHR ''{'' then map_option ((#) LBrace) (lex None cs)
      else if c = CHR ''}'' then map_option ((#) RBrace) (lex None cs)
      else if c = CHR '':'' then map_option ((#) Colon) (lex None cs)
      else if c = CHR '','' then map_option ((#) Comma) (lex None cs)
      else None)"
| "lex (Some acc) (c # cs) =
     (if c = CHR 0x22 then map_option ((#) (Str (rev acc))) (lex None cs)
      else if c = CHR 0x5C then None
      else lex (Some (c # acc)) cs)"

fun members :: "token list \<Rightarrow> (string \<rightharpoonup> string) \<Rightarrow> (string \<rightharpoonup> string) option" where
  "members [Str k, Colon, Str v, RBrace] m = Some (m(k \<mapsto> v))"
| "members (Str k # Colon # Str v # Comma # ts) m = members ts (m(k \<mapsto> v))"
| "members ts m = None"

definition decodeFlat :: "string \<Rightarrow> (string \<rightharpoonup> string)" where
  "decodeFlat s =
     (case lex None s of
        Some [LBrace, RBrace] \<Rightarrow> Map.empty
      | Some (LBrace # ts) \<Rightarrow> (case members ts Map.empty of None \<Rightarrow> Map.empty | Some m \<Rightarrow> m)
      | _ \<Rightarrow> Map.empty)"

text \<open>
  A URL parser for the examples: it rejects a URL in which a percent sign is not followed
  by two hexadecimal digits and accepts any other. It stands for net/url only at the
  concrete URLs below, none of which has a query.
\<close>

definition isHex :: "char \<Rightarrow> bool" where
  "isHex c = (c \<in> set ''0123456789abcdefABCDEF'')"

fun badEscape :: "string \<Rightarrow> bool" where
  "badEscape [] = False"
| "badEscape [c] = (c = CHR ''%'')"
| "badEscape [c, a] = (c = CHR ''%'' \<or> a = CHR ''%'')"
| "badEscape (c # a # b # cs) =
     (if c = CHR ''%'' then \<not> (isHex a \<and> isHex b) \<or> badEscape cs else badEscape (a # b # cs))"

definition exampleParseError :: "string \<Rightarrow> error option" where
  "exampleParseError url = (if badEscape url then Some ''invalid URL escape'' else None)"

text \<open>The metadata body \<^verbatim>\<open>{"id":"abc","key1":"value1"}\<close>.\<close>

definition quoted :: "string \<Rightarrow> string" where
  "quoted s = CHR 0x22 # s @ [CHR 0x22]"

definition exampleBody :: string where
  "exampleBody = ''{'' @ quoted ''id'' @ '':'' @ quoted ''abc'' @ '','' @ quoted ''key1'' @ '':'' @ quoted ''value1'' @ ''}''"

definition ok200 :: "(string \<times> string list) list \<Rightarrow> string \<Rightarrow> do_result" where
  "ok200 h b = DoOk \<lparr>statusCode = 200, status = ''200 OK'', header = h, body = Inr b\<rparr>"

definition notFound :: do_result where
  "notFound = DoOk \<lparr>statusCode = 404, status = ''404 Not Found'', header = [], body = Inr []\<rparr>"

definition unreachable :: do_result where
  "unreachable = DoErr None ''dial tcp: i/o timeout''"

definition offline :: env where
  "offline =
     \<lparr>clientDo = (\<lambda>url hs. unreachable),
      osStat = (\<lambda>p. Some ''no such file or directory''),
      execOutput = (\<lambda>cmd as. Inl ''no such file or directory''),
      jsonDecode = decodeFlat,
      parseError = exampleParseError\<rparr>"

definition awsServer :: "string \<Rightarrow> (string \<times> string) list \<Rightarrow> do_result" where
  "awsServer url hs =
     (if url = ''http://169.254.169.254/latest/meta-data/instance-id'' then ok200 [] ''i-0abc''
      else if url = ''http://169.254.169.254/latest/meta-data/ami-id'' then ok200 [] ''ami-deadbeef''
      else notFound)"

definition gceServer :: "string \<Rightarrow> (string \<times> string) list \<Rightarrow> do_result" where
  "gceServer url hs =
     (if url = ''http://metadata.google.internal/'' then ok200 [(''Metadata-Flavor'', [''Google''])] []
      else unreachable)"

definition openStackServer :: "string \<Rightarrow> (string \<times> string) list \<Rightarrow> do_result" where
  "openStackServer url hs =
     (if url = ''http://169.254.169.254/openstack/2012-08-10/meta_data.json'' then ok200 [] exampleBody
      else notFound)"

definition plainServer :: "string \<Rightarrow> (string \<times> string) list \<Rightarrow> do_result" where
  "plainServer url hs =
     (if url = ''http://metadata.google.internal/'' then ok200 [(''Server'', [''nginx''])] ''hello''
      else unreachable)"

definition envAWS :: env where
  "envAWS = offline\<lparr>clientDo := awsServer\<rparr>"

definition envTie :: env where
  "envTie = offline\<lparr>clientDo := (\<lambda>url hs. if url = ''http://metadata.google.internal/'' then gceServer url hs else awsServer url hs)\<rparr>"

definition envAzure :: env where
  "envAzure = offline\<lparr>osStat := (\<lambda>p. if p = ''/var/lib/waagent/ovf-env.xml'' then None else Some ''no such file or directory'')\<rparr>"

definition envOpenStack :: env where
  "envOpenStack = offline\<lparr>clientDo := openStackServer\<rparr>"

definition noFlags :: CommandLine where
  "noFlags = \<lparr>keyFlag = None, verboseFlag = None\<rparr>"

definition keyFlagOnly :: "string \<Rightarrow> CommandLine" where
  "keyFlagOnly k = \<lparr>keyFlag = Some k, verboseFlag = None\<rparr>"

lemmas env_defs =
  offline_def envAWS_def envTie_def envAzure_def envOpenStack_def
  awsServer_def gceServer_def openStackServer_def plainServer_def
  ok200_def notFound_def unreachable_def noFlags_def keyFlagOnly_def
  exampleBody_def quoted_def decodeFlat_def exampleParseError_def isHex_def

lemmas probe_defs =
  setupClouds_def NewAWSCloud_def NewGCECloud_def azureCloud_def NewOpenStackCloud_def
  NewDigitalOceanCloud_def NewJoyentCloud_def zeroBaseCloud_def zeroSimpleUrlBasedCloud_def

lemmas method_defs =
  getUrl_def http_NewRequest_def literalUrls_def Header_Get_def nl_def
  SimpleUrlBasedCloud_detectEffectiveCloud_def GCECloud_detectEffectiveCloud_def
  AzureCloud_detectEffectiveCloud_def JoyentCloud_detectEffectiveCloud_def
  BaseCloud_getKey_def SimpleUrlBasedCloud_getKey_def OpenStackCloud_getKey_def
  GCECloud_getKey_def JoyentCloud_getKey_def
  setupOptions_def flag_value_def main_def valid_schedule_def detected_def

section \<open>Properties\<close>

subsection \<open>getUrl, detection and the scan\<close>

lemma literal_request: "url \<in> set literalUrls \<Longrightarrow> http_NewRequest e url = None"
  by (simp add: http_NewRequest_def)

lemma getUrl_NilDeref: "fst (getUrl e url hs) = NilDeref \<longleftrightarrow> http_NewRequest e url \<noteq> None"
  by (auto simp: getUrl_def split: option.splits)

lemma getUrl_Done:
  assumes "getUrl e url hs = (Done (m, r, err), evs)"
  shows "evs = [HttpGet url hs]
       \<and> ((\<exists>out resp. m = Some out \<and> r = Some resp \<and> err = None \<and> clientDo e url hs = DoOk resp
              \<and> statusCode resp = 200 \<and> body resp = Inr out)
          \<or> (m = None \<and> err \<noteq> None))"
  using assms by (auto simp: getUrl_def split: option.splits do_result.splits sum.splits if_splits)

lemma getUrl_literal:
  assumes "url \<in> set literalUrls"
  shows "\<exists>m r err. getUrl e url hs = (Done (m, r, err), [HttpGet url hs])"
  using literal_request[OF assms, of e] by (simp add: getUrl_def prod_eq_iff)

lemma Simple_detect_Done:
  assumes "testUrl c \<in> set literalUrls"
  shows "\<exists>c'. fst (SimpleUrlBasedCloud_detectEffectiveCloud e c) = Done c'"
  using getUrl_literal[OF assms, of e "[]"]
  by (auto simp: SimpleUrlBasedCloud_detectEffectiveCloud_def)

lemma Simple_detect_result:
  assumes "fst (SimpleUrlBasedCloud_detectEffectiveCloud e c) = Done c'"
  shows "\<exists>m r err evs. getUrl e (testUrl c) [] = (Done (m, r, err), evs)
           \<and> c' = c\<lparr>metadata := m, isMyCloud := (err = None)\<rparr>"
  using assms
  by (cases "getUrl e (testUrl c) []" rule: prod.exhaust)
     (auto simp: SimpleUrlBasedCloud_detectEffectiveCloud_def split: exec.splits)

lemma Simple_detect_metadata:
  assumes "fst (SimpleUrlBasedCloud_detectEffectiveCloud e c) = Done c'" and "isMyCloud c'"
  shows "\<exists>r s. clientDo e (testUrl c) [] = DoOk r \<and> statusCode r = 200 \<and> body r = Inr s \<and> metadata c' = Some s"
proof -
  from Simple_detect_result[OF assms(1)] obtain m r err evs
    where g: "getUrl e (testUrl c) [] = (Done (m, r, err), evs)"
      and c': "c' = c\<lparr>metadata := m, isMyCloud := (err = None)\<rparr>"
    by blast
  from assms(2) c' have "err = None" by simp
  with getUrl_Done[OF g] c' show ?thesis by auto
qed

lemma Simple_detect_name:
  "fst (SimpleUrlBasedCloud_detectEffectiveCloud e c) = Done c' \<Longrightarrow>
     name c' = name c \<and> supportsKey c' = supportsKey c \<and> testUrl c' = testUrl c"
  by (auto dest: Simple_detect_result)

lemma GCE_detect_Done:
  "\<exists>c'. fst (GCECloud_detectEffectiveCloud e c) = Done c'"
proof -
  obtain m r err where g: "getUrl e ''http://metadata.google.internal/'' [(''Metadata-Flavor'', ''Google'')]
      = (Done (m, r, err), [HttpGet ''http://metadata.google.internal/'' [(''Metadata-Flavor'', ''Google'')]])"
    using getUrl_literal[of "''http://metadata.google.internal/''" e "[(''Metadata-Flavor'', ''Google'')]"]
    by (auto simp: literalUrls_def)
  from getUrl_Done[OF g] show ?thesis
    by (auto simp: GCECloud_detectEffectiveCloud_def Let_def g)
qed

lemma GCE_detect_name:
  "fst (GCECloud_detectEffectiveCloud e c) = Done c' \<Longrightarrow> name c' = name c \<and> supportsKey c' = True"
  by (auto simp: GCECloud_detectEffectiveCloud_def Let_def split: prod.splits if_splits option.splits exec.splits)

lemma Azure_detect_name:
  "fst (AzureCloud_detectEffectiveCloud e c) = Done c' \<Longrightarrow> name c' = name c \<and> supportsKey c' = True"
  by (auto simp: AzureCloud_detectEffectiveCloud_def Let_def split: if_splits)

lemma Joyent_detect_name:
  "fst (JoyentCloud_detectEffectiveCloud e c) = Done c' \<Longrightarrow> name c' = name c \<and> supportsKey c' = True"
  by (auto simp: JoyentCloud_detectEffectiveCloud_def Let_def split: if_splits)

lemma fst_lift_Done: "fst p = Done c \<Longrightarrow> fst (lift K p) = Done (K c)"
  by (cases p) simp

lemma lift_Done_iff: "fst (lift K p) = Done cd' \<longleftrightarrow> (\<exists>c'. fst p = Done c' \<and> cd' = K c')"
  by (cases "(K, p)" rule: lift.cases) auto

lemma detect_Done:
  assumes "urls_ok cd"
  shows "\<exists>cd'. fst (detectEffectiveCloud e cd) = Done cd'"
proof (cases cd)
  case (AWSCloud c)
  then show ?thesis using assms Simple_detect_Done[of c e] by (auto simp: fst_lift_Done)
next
  case (GCECloud c)
  then show ?thesis using GCE_detect_Done[of e c] by (auto simp: fst_lift_Done)
next
  case (AzureCloud c)
  then show ?thesis by (simp add: AzureCloud_detectEffectiveCloud_def Let_def)
next
  case (OpenStackCloud c)
  then show ?thesis using assms Simple_detect_Done[of c e] by (auto simp: fst_lift_Done)
next
  case (DigitalOceanCloud c)
  then show ?thesis using assms Simple_detect_Done[of c e] by (auto simp: fst_lift_Done)
next
  case (JoyentCloud c)
  then show ?thesis by (simp add: JoyentCloud_detectEffectiveCloud_def Let_def)
qed

lemma detect_detected: "urls_ok cd \<Longrightarrow> fst (detectEffectiveCloud e cd) = Done (detected e cd)"
  using detect_Done[of cd e] by (auto simp: detected_def)

lemma detect_keeps:
  assumes "fst (detectEffectiveCloud e cd) = Done cd'"
  shows "cloudDescription cd' = cloudDescription cd \<and> (urls_ok cd \<longrightarrow> urls_ok cd') \<and> metadata_ok cd'"
  using assms
  by (cases cd)
     (auto simp: lift_Done_iff
           dest: Simple_detect_name GCE_detect_name Azure_detect_name Joyent_detect_name
                 Simple_detect_metadata)

lemma detected_name: "cloudDescription (detected e cd) = cloudDescription cd"
  using detect_keeps[of e cd] by (cases "fst (detectEffectiveCloud e cd)") (simp_all add: detected_def)

lemma detected_urls_ok: "urls_ok cd \<Longrightarrow> urls_ok (detected e cd)"
  using detect_keeps[of e cd] by (cases "fst (detectEffectiveCloud e cd)") (simp_all add: detected_def)

lemma detected_metadata_ok: "urls_ok cd \<Longrightarrow> metadata_ok (detected e cd)"
  using detect_keeps[of e cd "detected e cd"] detect_detected[of cd e] by simp

lemma runTasks_partial:
  "distinct sched \<Longrightarrow> set sched \<subseteq> {0..<length cds} \<Longrightarrow> list_all urls_ok cds \<Longrightarrow>
   fst (runTasks e sched cds) =
     Done (map (\<lambda>i. if i \<in> set sched then detected e (cds ! i) else cds ! i) [0..<length cds])"
proof (induction sched arbitrary: cds)
  case Nil
  then show ?case by (simp add: map_nth)
next
  case (Cons i sched)
  from Cons.prems have il: "i < length cds" and ni: "i \<notin> set sched" and ds: "distinct sched"
    by auto
  from Cons.prems(3) il have ok: "urls_ok (cds ! i)"
    by (simp add: list_all_length)
  obtain evs where d: "detectEffectiveCloud e (cds ! i) = (Done (detected e (cds ! i)), evs)"
    using detect_detected[OF ok, of e] by (cases "detectEffectiveCloud e (cds ! i)") auto
  let ?cds' = "cds[i := detected e (cds ! i)]"
  from Cons.prems have sub: "set sched \<subseteq> {0..<length ?cds'}"
    by auto
  have ok': "list_all urls_ok ?cds'"
    using Cons.prems(3) detected_urls_ok[OF ok, of e]
    by (auto simp: list_all_iff dest!: set_update_subset_insert[THEN subsetD])
  have ih: "fst (runTasks e sched ?cds') =
     Done (map (\<lambda>j. if j \<in> set sched then detected e (?cds' ! j) else ?cds' ! j) [0..<length ?cds'])"
    by (rule Cons.IH[OF ds sub ok'])
  have eq: "map (\<lambda>j. if j \<in> set sched then detected e (?cds' ! j) else ?cds' ! j) [0..<length ?cds']
        = map (\<lambda>j. if j \<in> set (i # sched) then detected e (cds ! j) else cds ! j) [0..<length cds]"
    using ni il by (auto simp: nth_list_update)
  have "fst (runTasks e (i # sched) cds) = fst (runTasks e sched ?cds')"
    using d by (simp split: prod.splits)
  with ih eq show ?case by (simp only:)
qed

lemma setupClouds_urls_ok: "list_all urls_ok setupClouds"
  by (simp add: probe_defs literalUrls_def)

lemma runTasks_valid:
  assumes "valid_schedule (length setupClouds) sched"
  shows "fst (runTasks e sched setupClouds) = Done (map (detected e) setupClouds)"
proof -
  from assms have d: "distinct sched" and s: "set sched = {0..<length setupClouds}"
    by (auto simp: valid_schedule_def)
  have "map (\<lambda>i. if i \<in> set sched then detected e (setupClouds ! i) else setupClouds ! i)
          [0..<length setupClouds]
        = map (detected e) setupClouds"
    using s by (auto intro!: nth_equalityI)
  then show ?thesis using runTasks_partial[OF d _ setupClouds_urls_ok, of e] s by simp
qed

lemma find_holds: "find P xs = Some x \<Longrightarrow> P x"
  by (auto simp: find_Some_iff)

lemma find_None_all: "(\<forall>x\<in>set xs. \<not> P x) \<Longrightarrow> find P xs = None"
  by (simp add: find_None_iff)

lemma find_detected_ok:
  assumes "find isEffectiveCloud (map (detected e) setupClouds) = Some w"
  shows "metadata_ok w \<and> isEffectiveCloud w"
proof -
  from assms have "w \<in> set (map (detected e) setupClouds)"
    by (auto simp: find_Some_iff)
  then obtain cd where "cd \<in> set setupClouds" and w: "w = detected e cd"
    by auto
  then have "urls_ok cd" using setupClouds_urls_ok by (simp add: list_all_iff)
  then show ?thesis using detected_metadata_ok[of cd e] w find_holds[OF assms] by simp
qed

lemma OpenStack_getKey_shape:
  assumes "metadata c = Some s"
  shows "(\<exists>v. OpenStackCloud_getKey e c k = (Done (Some v, None), []))
       \<or> (\<exists>err. OpenStackCloud_getKey e c k = (Done (None, Some err), []))"
  using assms by (simp add: OpenStackCloud_getKey_def Let_def)

lemma scan_find:
  "scan e opts cds = (case find isEffectiveCloud cds of None \<Rightarrow> (Exit (''UNKNOWN'' @ nl) 1, []) | Some w \<Rightarrow> scan e opts [w])"
  by (induction cds) (auto simp: Let_def split: prod.splits)

lemma fst_main:
  assumes "fst (runTasks e sched setupClouds) = Done cds"
  shows "fst (main e sched args) = fst (scan e (setupOptions setupClouds args) cds)"
  using assms by (cases "runTasks e sched setupClouds") (simp add: main_def Let_def split: prod.splits)

lemma snd_main:
  assumes "fst (runTasks e sched setupClouds) = Done cds"
  shows "snd (main e sched args) = snd (runTasks e sched setupClouds) @ snd (scan e (setupOptions setupClouds args) cds)"
  using assms by (cases "runTasks e sched setupClouds") (simp add: main_def Let_def split: prod.splits)

lemma scan_none:
  "find isEffectiveCloud cds = None \<Longrightarrow> scan e opts cds = (Exit (''UNKNOWN'' @ nl) 1, [])"
  by (simp add: scan_find)

lemma scan_no_key:
  assumes "find isEffectiveCloud cds = Some w" and "key opts = []"
  shows "scan e opts cds = (Exit (cloudDescription w @ nl) 0, [])"
  using assms find_holds[OF assms(1)] by (simp add: scan_find[of e opts cds] Let_def)

lemma scan_key:
  assumes "find isEffectiveCloud cds = Some w" and "key opts \<noteq> []"
  shows "(getKey e w (key opts) = (Done (Some v, None), evs) \<longrightarrow>
            scan e opts cds = (Exit (cloudDescription w @ nl @ v @ nl) 0, evs))
       \<and> (getKey e w (key opts) = (Done (val, Some err), evs) \<longrightarrow>
            scan e opts cds = (Exit (cloudDescription w @ nl @ ''UNKNOWN'' @ nl) 1, evs))
       \<and> (getKey e w (key opts) = (NilDeref, evs) \<longrightarrow>
            scan e opts cds = (Crash (cloudDescription w @ nl), evs))"
  using assms find_holds[OF assms(1)] by (simp add: scan_find[of e opts cds] Let_def)

lemma registry_names:
  "map cloudDescription setupClouds = [''AWS'', ''GCE'', ''Azure'', ''OpenStack'', ''Digital Ocean'', ''Joyent'']"
  by (simp add: probe_defs)

lemma scan_winner:
  assumes "find isEffectiveCloud cds = Some w"
  shows "\<exists>rest. stdout (fst (scan e opts cds)) = cloudDescription w @ nl @ rest"
  using assms find_holds[OF assms]
  by (auto simp: scan_find[of e opts cds] Let_def split: prod.splits exec.splits option.splits)

section \<open>The claims\<close>

text \<open>
  C1. After every detection task has completed, the orchestrator scans the probes in
  registry order (AWS, GCE, Azure, OpenStack, Digital Ocean, Joyent) and selects the first
  probe whose isPresent is true. Whatever the order in which the detection tasks finish,
  the registry holds the same probes after the join and the program ends the same way; for
  every list of probes the scan reports the first one that is present, or UNKNOWN when
  none is.
\<close>

theorem C1_winner_by_registry_order:
  assumes "valid_schedule (length setupClouds) sched"
      and "valid_schedule (length setupClouds) sched'"
  shows "map cloudDescription setupClouds =
           [''AWS'', ''GCE'', ''Azure'', ''OpenStack'', ''Digital Ocean'', ''Joyent'']
       \<and> (\<exists>cds. fst (runTasks e sched setupClouds) = Done cds
             \<and> fst (runTasks e sched' setupClouds) = Done cds
             \<and> map cloudDescription cds = map cloudDescription setupClouds
             \<and> (case find isEffectiveCloud cds of
                  None \<Rightarrow> fst (main e sched args) = Exit (''UNKNOWN'' @ nl) 1
                | Some w \<Rightarrow> \<exists>rest. stdout (fst (main e sched args)) = cloudDescription w @ nl @ rest))
       \<and> fst (main e sched' args) = fst (main e sched args)
       \<and> (case find isEffectiveCloud cdList of
            None \<Rightarrow> fst (scan e opts cdList) = Exit (''UNKNOWN'' @ nl) 1
          | Some w \<Rightarrow> \<exists>rest. stdout (fst (scan e opts cdList)) = cloudDescription w @ nl @ rest)"
proof -
  let ?cds = "map (detected e) setupClouds"
  have r: "fst (runTasks e sched setupClouds) = Done ?cds"
    and r': "fst (runTasks e sched' setupClouds) = Done ?cds"
    using assms by (simp_all add: runTasks_valid)
  have names: "map cloudDescription ?cds = map cloudDescription setupClouds"
    by (simp add: detected_name)
  have gen: "case find isEffectiveCloud xs of
            None \<Rightarrow> fst (scan e o' xs) = Exit (''UNKNOWN'' @ nl) 1
          | Some w \<Rightarrow> \<exists>rest. stdout (fst (scan e o' xs)) = cloudDescription w @ nl @ rest" for xs o'
    by (cases "find isEffectiveCloud xs") (simp_all add: scan_none scan_winner)
  have m: "fst (main e sched args) = fst (scan e (setupOptions setupClouds args) ?cds)"
    and m': "fst (main e sched' args) = fst (scan e (setupOptions setupClouds args) ?cds)"
    using r r' by (simp_all add: fst_main)
  have w: "case find isEffectiveCloud ?cds of
                  None \<Rightarrow> fst (main e sched args) = Exit (''UNKNOWN'' @ nl) 1
                | Some w \<Rightarrow> \<exists>rest. stdout (fst (main e sched args)) = cloudDescription w @ nl @ rest"
    using gen[where xs="?cds" and o'="setupOptions setupClouds args"] by (simp only: m)
  show ?thesis
    using registry_names r r' names w m m' gen[where xs=cdList and o'=opts] by (intro conjI exI[of _ ?cds]) simp_all
qed

text \<open>
  With AWS and GCE both present, two different completion orders select AWS.
\<close>

theorem C1_witness:
  "valid_schedule (length setupClouds) [5, 3, 0, 1, 4, 2]
   \<and> valid_schedule (length setupClouds) [1, 0, 2, 3, 4, 5]
   \<and> fst (runTasks envTie [5, 3, 0, 1, 4, 2] setupClouds) = fst (runTasks envTie [1, 0, 2, 3, 4, 5] setupClouds)
   \<and> map isEffectiveCloud (map (detected envTie) setupClouds) = [True, True, False, False, False, False]
   \<and> fst (main envTie [5, 3, 0, 1, 4, 2] noFlags) = Exit (''AWS'' @ nl) 0
   \<and> fst (main envTie [1, 0, 2, 3, 4, 5] noFlags) = Exit (''AWS'' @ nl) 0"
proof -
  have v: "valid_schedule (length setupClouds) [5, 3, 0, 1, 4, 2]"
    and v': "valid_schedule (length setupClouds) [1, 0, 2, 3, 4, 5]"
    by (auto simp: valid_schedule_def setupClouds_def)
  have p: "map isEffectiveCloud (map (detected envTie) setupClouds) = [True, True, False, False, False, False]"
    by (simp add: probe_defs method_defs env_defs)
  have m: "fst (main envTie [5, 3, 0, 1, 4, 2] noFlags) = Exit (''AWS'' @ nl) 0"
    by (simp add: probe_defs method_defs env_defs)
  from C1_winner_by_registry_order[OF v v', of envTie noFlags]
  obtain cds where c: "fst (runTasks envTie [5, 3, 0, 1, 4, 2] setupClouds) = Done cds"
      and c': "fst (runTasks envTie [1, 0, 2, 3, 4, 5] setupClouds) = Done cds"
      and mm: "fst (main envTie [1, 0, 2, 3, 4, 5] noFlags) = fst (main envTie [5, 3, 0, 1, 4, 2] noFlags)"
    by blast
  have eq: "fst (runTasks envTie [5, 3, 0, 1, 4, 2] setupClouds) = fst (runTasks envTie [1, 0, 2, 3, 4, 5] setupClouds)"
    using c c' by (simp only:)
  have m': "fst (main envTie [1, 0, 2, 3, 4, 5] noFlags) = Exit (''AWS'' @ nl) 0"
    using mm m by (simp only:)
  show ?thesis using v v' p m m' eq by (intro conjI)
qed

text \<open>
  C2. When no probe reports isPresent true after the detection join, the program prints
  exactly the line UNKNOWN and exits with status 1; when some probe reports present and
  the requested key is empty, it prints the display name of the first such probe and
  exits 0.
\<close>

theorem C2_unknown_or_provider_name:
  assumes "fst (runTasks e sched setupClouds) = Done cds"
  shows "((\<forall>cd\<in>set cds. \<not> isEffectiveCloud cd) \<longrightarrow>
            fst (main e sched args) = Exit (''UNKNOWN'' @ nl) 1)
       \<and> (find isEffectiveCloud cds = Some w \<and> key (setupOptions setupClouds args) = [] \<longrightarrow>
            fst (main e sched args) = Exit (cloudDescription w @ nl) 0)"
proof -
  have m: "fst (main e sched args) = fst (scan e (setupOptions setupClouds args) cds)"
    using assms by (rule fst_main)
  show ?thesis
    by (auto simp: m scan_none scan_no_key dest: find_None_all)
qed

text \<open>
  Nothing answers: UNKNOWN and status 1. Only the AWS metadata service answers: AWS and
  status 0.
\<close>

theorem C2_witness:
  "fst (runTasks offline [2, 0, 1, 5, 4, 3] setupClouds) = Done (map (detected offline) setupClouds)
   \<and> list_all (\<lambda>cd. \<not> isEffectiveCloud cd) (map (detected offline) setupClouds)
   \<and> fst (main offline [2, 0, 1, 5, 4, 3] noFlags) = Exit (''UNKNOWN'' @ nl) 1
   \<and> fst (runTasks envAWS [2, 0, 1, 5, 4, 3] setupClouds) = Done (map (detected envAWS) setupClouds)
   \<and> find isEffectiveCloud (map (detected envAWS) setupClouds) = Some (detected envAWS NewAWSCloud)
   \<and> key (setupOptions setupClouds noFlags) = []
   \<and> cloudDescription (detected envAWS NewAWSCloud) = ''AWS''
   \<and> fst (main envAWS [2, 0, 1, 5, 4, 3] noFlags) = Exit (''AWS'' @ nl) 0"
proof -
  have v: "valid_schedule (length setupClouds) [2, 0, 1, 5, 4, 3]"
    by (auto simp: valid_schedule_def setupClouds_def)
  have r0: "fst (runTasks offline [2, 0, 1, 5, 4, 3] setupClouds) = Done (map (detected offline) setupClouds)"
    and r1: "fst (runTasks envAWS [2, 0, 1, 5, 4, 3] setupClouds) = Done (map (detected envAWS) setupClouds)"
    using v by (simp_all only: runTasks_valid)
  have a0: "list_all (\<lambda>cd. \<not> isEffectiveCloud cd) (map (detected offline) setupClouds)"
    by (simp add: probe_defs method_defs env_defs)
  then have b0: "\<forall>cd\<in>set (map (detected offline) setupClouds). \<not> isEffectiveCloud cd"
    by (simp only: list_all_iff)
  have a1: "find isEffectiveCloud (map (detected envAWS) setupClouds) = Some (detected envAWS NewAWSCloud)"
    by (simp add: probe_defs method_defs env_defs)
  have k: "key (setupOptions setupClouds noFlags) = []"
    by (simp add: setupOptions_def flag_value_def noFlags_def)
  have n: "cloudDescription (detected envAWS NewAWSCloud) = ''AWS''"
    by (simp add: detected_name NewAWSCloud_def zeroSimpleUrlBasedCloud_def)
  have m0: "fst (main offline [2, 0, 1, 5, 4, 3] noFlags) = Exit (''UNKNOWN'' @ nl) 1"
    using C2_unknown_or_provider_name[OF r0, where args=noFlags] b0 by blast
  have m1: "fst (main envAWS [2, 0, 1, 5, 4, 3] noFlags) = Exit (''AWS'' @ nl) 0"
    using C2_unknown_or_provider_name[OF r1, where w="detected envAWS NewAWSCloud" and args=noFlags] a1 k n
    by (simp only:)
  show ?thesis using r0 a0 m0 r1 a1 k n m1 by (intro conjI)
qed

text \<open>
  C3. The claim is that with a non-empty key and a detected provider the name is printed
  first, and that a key fetch failing for any reason prints UNKNOWN as the second line and
  exits 1. On AWS with the key \<^verbatim>\<open>%zz\<close> the URL of the key does not parse:
  \<^verbatim>\<open>http.NewRequest\<close> returns a nil request, \<^verbatim>\<open>getUrl\<close> drops its error and
  \<^verbatim>\<open>client.Do\<close> dereferences nil. The run panics after printing AWS, with no
  UNKNOWN line and no exit status 1.
\<close>

theorem C3_unparsable_key_panics:
  "find isEffectiveCloud (map (detected envAWS) setupClouds) = Some (detected envAWS NewAWSCloud)
   \<and> http_NewRequest envAWS ''http://169.254.169.254/latest/meta-data/%zz'' = Some ''invalid URL escape''
   \<and> getKey envAWS (detected envAWS NewAWSCloud) ''%zz'' = (NilDeref, [])
   \<and> fst (main envAWS [0, 1, 2, 3, 4, 5] (keyFlagOnly ''%zz'')) = Crash (''AWS'' @ nl)
   \<and> fst (main envAWS [0, 1, 2, 3, 4, 5] (keyFlagOnly ''%zz'')) \<noteq> Exit (''AWS'' @ nl @ ''UNKNOWN'' @ nl) 1"
proof -
  have f: "find isEffectiveCloud (map (detected envAWS) setupClouds) = Some (detected envAWS NewAWSCloud)"
    by (simp add: probe_defs method_defs env_defs)
  have p: "http_NewRequest envAWS ''http://169.254.169.254/latest/meta-data/%zz'' = Some ''invalid URL escape''"
    by (simp add: http_NewRequest_def literalUrls_def env_defs)
  have g: "getKey envAWS (detected envAWS NewAWSCloud) ''%zz'' = (NilDeref, [])"
    by (simp add: probe_defs method_defs env_defs)
  have m: "fst (main envAWS [0, 1, 2, 3, 4, 5] (keyFlagOnly ''%zz'')) = Crash (''AWS'' @ nl)"
    by (simp add: probe_defs method_defs env_defs)
  show ?thesis using f p g m by simp
qed

text \<open>
  C4. The GCE probe is present exactly when the GET of the metadata URL succeeds (a
  response with status 200 whose body can be read) and the response carries the header
  Metadata-Flavor with value Google. A response with status 200 without that header value
  leaves isPresent false.
\<close>

theorem C4_gce_presence_needs_header:
  "\<exists>c'. fst (GCECloud_detectEffectiveCloud e c) = Done c'
     \<and> (isMyCloud c' \<longleftrightarrow>
          (\<exists>r out. clientDo e ''http://metadata.google.internal/'' [(''Metadata-Flavor'', ''Google'')] = DoOk r
             \<and> statusCode r = 200 \<and> body r = Inr out
             \<and> Header_Get (header r) ''Metadata-Flavor'' = ''Google''))
     \<and> (clientDo e ''http://metadata.google.internal/'' [(''Metadata-Flavor'', ''Google'')] = DoOk r200
          \<and> statusCode r200 = 200
          \<and> Header_Get (header r200) ''Metadata-Flavor'' \<noteq> ''Google''
          \<longrightarrow> \<not> isMyCloud c')"
  by (auto simp: GCECloud_detectEffectiveCloud_def getUrl_def http_NewRequest_def literalUrls_def
                 Let_def
           split: do_result.splits sum.splits)

text \<open>
  A server that answers 200 with no Metadata-Flavor header is not GCE; one that echoes
  the header is.
\<close>

theorem C4_witness:
  "clientDo (offline\<lparr>clientDo := plainServer\<rparr>) ''http://metadata.google.internal/'' [(''Metadata-Flavor'', ''Google'')]
      = ok200 [(''Server'', [''nginx''])] ''hello''
   \<and> Header_Get [(''Server'', [''nginx''])] ''Metadata-Flavor'' = []
   \<and> fst (detectEffectiveCloud (offline\<lparr>clientDo := plainServer\<rparr>) NewGCECloud)
        = Done (GCECloud \<lparr>name = ''GCE'', isMyCloud = False, supportsKey = True\<rparr>)
   \<and> fst (detectEffectiveCloud (offline\<lparr>clientDo := gceServer\<rparr>) NewGCECloud)
        = Done (GCECloud \<lparr>name = ''GCE'', isMyCloud = True, supportsKey = True\<rparr>)"
proof -
  let ?e = "offline\<lparr>clientDo := plainServer\<rparr>"
  let ?c = "zeroBaseCloud\<lparr>supportsKey := True, name := ''GCE''\<rparr>"
  let ?r = "\<lparr>statusCode = 200, status = ''200 OK'', header = [(''Server'', [''nginx''])], body = Inr ''hello''\<rparr>"
  have d: "clientDo ?e ''http://metadata.google.internal/'' [(''Metadata-Flavor'', ''Google'')]
      = ok200 [(''Server'', [''nginx''])] ''hello''"
    by (simp add: plainServer_def)
  have h: "Header_Get [(''Server'', [''nginx''])] ''Metadata-Flavor'' = []"
    by (simp add: Header_Get_def)
  from C4_gce_presence_needs_header[of ?e ?c ?r]
  obtain c' where c': "fst (GCECloud_detectEffectiveCloud ?e ?c) = Done c'" and n: "\<not> isMyCloud c'"
    using d h by (auto simp: ok200_def)
  have "c' = \<lparr>name = ''GCE'', isMyCloud = False, supportsKey = True\<rparr>"
    using c' n GCE_detect_name[OF c'] by (cases c') (simp add: zeroBaseCloud_def)
  then have p: "fst (detectEffectiveCloud ?e NewGCECloud)
        = Done (GCECloud \<lparr>name = ''GCE'', isMyCloud = False, supportsKey = True\<rparr>)"
    using c' by (simp add: NewGCECloud_def fst_lift_Done)
  have g: "fst (detectEffectiveCloud (offline\<lparr>clientDo := gceServer\<rparr>) NewGCECloud)
        = Done (GCECloud \<lparr>name = ''GCE'', isMyCloud = True, supportsKey = True\<rparr>)"
    by (simp add: probe_defs method_defs env_defs)
  show ?thesis using d h p g by (intro conjI)
qed

text \<open>
  C5. The getKey of the OpenStack probe reads the body cached by a successful detection,
  decodes it as a string-to-string JSON object and returns the requested field; when the
  key is absent or its value is the empty string it fails with "No such key" followed
  by the key. It makes no request: the list of events is empty, and the environment at
  the time of the key fetch matters only through the decoder.
\<close>

theorem C5_openstack_getKey_from_cached_body:
  assumes "fst (SimpleUrlBasedCloud_detectEffectiveCloud e c0) = Done c"
      and "isMyCloud c"
  shows "\<exists>r s. clientDo e (testUrl c0) [] = DoOk r \<and> body r = Inr s \<and> metadata c = Some s
          \<and> getKey e' (OpenStackCloud c) k =
              (case jsonDecode e' s k of
                 None \<Rightarrow> (Done (None, Some (''No such key '' @ k)), [])
               | Some v \<Rightarrow>
                   if v = [] then (Done (None, Some (''No such key '' @ k)), [])
                   else (Done (Some v, None), []))"
proof -
  from Simple_detect_metadata[OF assms]
  obtain r s where rs: "clientDo e (testUrl c0) [] = DoOk r" "body r = Inr s" "metadata c = Some s"
    by blast
  have "getKey e' (OpenStackCloud c) k =
              (case jsonDecode e' s k of
                 None \<Rightarrow> (Done (None, Some (''No such key '' @ k)), [])
               | Some v \<Rightarrow>
                   if v = [] then (Done (None, Some (''No such key '' @ k)), [])
                   else (Done (Some v, None), []))"
    using rs(3) by (simp add: OpenStackCloud_getKey_def Let_def split: option.splits)
  with rs show ?thesis by blast
qed

text \<open>
  The cached body \<^verbatim>\<open>{"id":"abc","key1":"value1"}\<close>: key1 gives value1, missing gives
  the failure.
\<close>

theorem C5_witness:
  "fst (SimpleUrlBasedCloud_detectEffectiveCloud envOpenStack
          (zeroSimpleUrlBasedCloud\<lparr>testUrl := ''http://169.254.169.254/openstack/2012-08-10/meta_data.json'',
             supportsKey := True, name := ''OpenStack''\<rparr>))
     = Done \<lparr>name = ''OpenStack'', isMyCloud = True, supportsKey = True, baseUrl = [],
             testUrl = ''http://169.254.169.254/openstack/2012-08-10/meta_data.json'',
             metadata = Some exampleBody\<rparr>
   \<and> decodeFlat exampleBody ''key1'' = Some ''value1''
   \<and> decodeFlat exampleBody ''missing'' = None
   \<and> getKey offline (detected envOpenStack NewOpenStackCloud) ''key1'' = (Done (Some ''value1'', None), [])
   \<and> getKey offline (detected envOpenStack NewOpenStackCloud) ''missing''
        = (Done (None, Some ''No such key missing''), [])"
proof -
  let ?p = "zeroSimpleUrlBasedCloud\<lparr>testUrl := ''http://169.254.169.254/openstack/2012-08-10/meta_data.json'',
             supportsKey := True, name := ''OpenStack''\<rparr>"
  let ?q = "\<lparr>name = ''OpenStack'', isMyCloud = True, supportsKey = True, baseUrl = [],
             testUrl = ''http://169.254.169.254/openstack/2012-08-10/meta_data.json'',
             metadata = Some exampleBody\<rparr>"
  have d: "fst (SimpleUrlBasedCloud_detectEffectiveCloud envOpenStack ?p) = Done ?q"
    by (simp add: SimpleUrlBasedCloud_detectEffectiveCloud_def getUrl_def http_NewRequest_def
        literalUrls_def envOpenStack_def openStackServer_def ok200_def zeroSimpleUrlBasedCloud_def)
  have p: "isMyCloud ?q" by simp
  have w: "detected envOpenStack NewOpenStackCloud = OpenStackCloud ?q"
    using d by (simp add: detected_def NewOpenStackCloud_def fst_lift_Done)
  have j: "jsonDecode offline = decodeFlat" by (simp add: offline_def)
  have k1: "decodeFlat exampleBody ''key1'' = Some ''value1''"
    and k2: "decodeFlat exampleBody ''missing'' = None"
    by (simp_all add: decodeFlat_def exampleBody_def quoted_def)
  have g1: "getKey offline (OpenStackCloud ?q) ''key1'' = (Done (Some ''value1'', None), [])"
    using C5_openstack_getKey_from_cached_body[OF d p, of offline "''key1''"] k1
    by (auto simp: j)
  have g2: "getKey offline (OpenStackCloud ?q) ''missing'' = (Done (None, Some ''No such key missing''), [])"
    using C5_openstack_getKey_from_cached_body[OF d p, of offline "''missing''"] k2
    by (auto simp: j)
  show ?thesis using d k1 k2 g1 g2 by (simp only: w) 
qed

text \<open>
  C6. The claim is that detection leaves the supportsKey field and the name of every probe
  unchanged. The name is kept, but the Azure probe is built with supportsKey false and its
  detection assigns true, in every environment.
\<close>

theorem C6_azure_detect_sets_supportsKey:
  "supportsKeys azureCloud = False
   \<and> (\<exists>cd'. fst (detectEffectiveCloud e azureCloud) = Done cd'
         \<and> supportsKeys cd' = True
         \<and> cloudDescription cd' = cloudDescription azureCloud)"
  by (simp add: azureCloud_def zeroBaseCloud_def AzureCloud_detectEffectiveCloud_def Let_def)



text \<open>
  C8. The getKey of BaseCloud fails with "Cloud does not support keys" for every probe
  and key and makes no request. The Azure probe inherits it, so every key fetch on Azure
  fails this way, and Azure can be the detected provider: where only the Azure marker
  file exists, a run with a key prints Azure, then UNKNOWN, exits 1, and its only events
  are those of detection.
\<close>

theorem C8_default_getKey_unsupported:
  "BaseCloud_getKey c k = (Done (None, Some ''Cloud does not support keys''), [])
   \<and> getKey e (AzureCloud c) k = (Done (None, Some ''Cloud does not support keys''), [])
   \<and> find isEffectiveCloud (map (detected envAzure) setupClouds) = Some (detected envAzure azureCloud)
   \<and> fst (main envAzure [0, 1, 2, 3, 4, 5] (keyFlagOnly ''bogus''))
        = Exit (''Azure'' @ nl @ ''UNKNOWN'' @ nl) 1
   \<and> snd (main envAzure [0, 1, 2, 3, 4, 5] (keyFlagOnly ''bogus''))
        = snd (runTasks envAzure [0, 1, 2, 3, 4, 5] setupClouds)"
proof -
  have a: "BaseCloud_getKey c k = (Done (None, Some ''Cloud does not support keys''), [])"
    by (simp add: BaseCloud_getKey_def)
  have f: "find isEffectiveCloud (map (detected envAzure) setupClouds) = Some (detected envAzure azureCloud)"
    by (simp add: probe_defs method_defs env_defs)
  have m: "main envAzure [0, 1, 2, 3, 4, 5] (keyFlagOnly ''bogus'')
        = (Exit (''Azure'' @ nl @ ''UNKNOWN'' @ nl) 1, snd (runTasks envAzure [0, 1, 2, 3, 4, 5] setupClouds))"
    by (simp add: probe_defs method_defs env_defs)
  show ?thesis using a f m by simp
qed

text \<open>
  C9. After the detection of a URL-based probe (AWS, OpenStack, Digital Ocean share the
  method), isPresent true implies that the cached metadata is not nil, so the getKey of
  OpenStack does not dereference nil on it. After a detection run every URL-based probe
  of the registry satisfies this; when OpenStack is the winner its key fetch returns a
  value or an error for every key, and main does not panic.
\<close>

theorem C9_present_implies_metadata:
  assumes "valid_schedule (length setupClouds) sched"
  shows "(fst (SimpleUrlBasedCloud_detectEffectiveCloud e c) = Done c' \<and> isMyCloud c' \<longrightarrow>
            (\<exists>s. metadata c' = Some s) \<and> fst (OpenStackCloud_getKey e' c' k) \<noteq> NilDeref)
       \<and> (\<exists>cds. fst (runTasks e sched setupClouds) = Done cds
            \<and> list_all metadata_ok cds
            \<and> (\<forall>w. find isEffectiveCloud cds = Some (OpenStackCloud w) \<longrightarrow>
                  (\<exists>s. metadata w = Some s)
                  \<and> fst (getKey e (OpenStackCloud w) k) \<noteq> NilDeref
                  \<and> (\<forall>out. fst (main e sched args) \<noteq> Crash out)))"
proof -
  let ?cds = "map (detected e) setupClouds"
  let ?opts = "setupOptions setupClouds args"
  have p1: "(\<exists>s. metadata c' = Some s) \<and> fst (OpenStackCloud_getKey e' c' k) \<noteq> NilDeref"
    if "fst (SimpleUrlBasedCloud_detectEffectiveCloud e c) = Done c'" and "isMyCloud c'"
  proof -
    from Simple_detect_metadata[OF that] obtain s where s: "metadata c' = Some s" by blast
    with OpenStack_getKey_shape[OF s, of e' k] show ?thesis by auto
  qed
  have r: "fst (runTasks e sched setupClouds) = Done ?cds"
    using assms by (rule runTasks_valid)
  have ok: "list_all metadata_ok ?cds"
    using setupClouds_urls_ok by (simp add: list_all_iff detected_metadata_ok)
  have win: "(\<exists>s. metadata w = Some s)
       \<and> fst (getKey e (OpenStackCloud w) k) \<noteq> NilDeref
       \<and> (\<forall>out. fst (main e sched args) \<noteq> Crash out)"
    if f: "find isEffectiveCloud ?cds = Some (OpenStackCloud w)" for w
  proof -
    from find_detected_ok[OF f] obtain s where s: "metadata w = Some s" by auto
    have nk: "fst (getKey e (OpenStackCloud w) kk) \<noteq> NilDeref" for kk
      using OpenStack_getKey_shape[OF s, of e kk] by auto
    have "fst (scan e ?opts ?cds) \<noteq> Crash out" for out
    proof (cases "key ?opts = []")
      case True
      with f show ?thesis by (simp add: scan_no_key)
    next
      case False
      from OpenStack_getKey_shape[OF s, of e "key ?opts"]
      consider (good) v where "getKey e (OpenStackCloud w) (key ?opts) = (Done (Some v, None), [])"
        | (bad) err where "getKey e (OpenStackCloud w) (key ?opts) = (Done (None, Some err), [])"
        by auto
      then show ?thesis
      proof cases
        case good
        then show ?thesis using scan_key[OF f False, of e v "[]"] by simp
      next
        case bad
        then show ?thesis using scan_key[OF f False, of e _ "[]" None err] by simp
      qed
    qed
    then have "\<forall>out. fst (main e sched args) \<noteq> Crash out"
      by (simp add: fst_main[OF r])
    with s nk show ?thesis by blast
  qed
  show ?thesis using p1 r ok win by blast
qed

text \<open>
  Where the OpenStack metadata service answers, OpenStack wins with its body cached and
  the key fetch runs without a nil dereference.
\<close>

theorem C9_witness:
  "valid_schedule (length setupClouds) [3, 4, 5, 0, 1, 2]
   \<and> find isEffectiveCloud (map (detected envOpenStack) setupClouds) = Some (detected envOpenStack NewOpenStackCloud)
   \<and> detected envOpenStack NewOpenStackCloud
        = OpenStackCloud \<lparr>name = ''OpenStack'', isMyCloud = True, supportsKey = True, baseUrl = [],
             testUrl = ''http://169.254.169.254/openstack/2012-08-10/meta_data.json'',
             metadata = Some exampleBody\<rparr>
   \<and> fst (getKey envOpenStack (detected envOpenStack NewOpenStackCloud) ''key1'') \<noteq> NilDeref
   \<and> fst (main envOpenStack [3, 4, 5, 0, 1, 2] (keyFlagOnly ''key1'')) \<noteq> Crash (''OpenStack'' @ nl)"
proof -
  let ?w = "\<lparr>name = ''OpenStack'', isMyCloud = True, supportsKey = True, baseUrl = [],
             testUrl = ''http://169.254.169.254/openstack/2012-08-10/meta_data.json'',
             metadata = Some exampleBody\<rparr>"
  have v: "valid_schedule (length setupClouds) [3, 4, 5, 0, 1, 2]"
    by (auto simp: valid_schedule_def setupClouds_def)
  have r: "fst (runTasks envOpenStack [3, 4, 5, 0, 1, 2] setupClouds) = Done (map (detected envOpenStack) setupClouds)"
    using v by (rule runTasks_valid)
  have d: "detected envOpenStack NewOpenStackCloud = OpenStackCloud ?w"
    by (simp add: probe_defs method_defs envOpenStack_def openStackServer_def ok200_def)
  have f: "find isEffectiveCloud (map (detected envOpenStack) setupClouds) = Some (detected envOpenStack NewOpenStackCloud)"
    by (simp add: probe_defs method_defs env_defs)
  then have f': "find isEffectiveCloud (map (detected envOpenStack) setupClouds) = Some (OpenStackCloud ?w)"
    by (simp only: d)
  from C9_present_implies_metadata[OF v, where e=envOpenStack and k="''key1''"
      and args="keyFlagOnly ''key1''"] r f'
  have g: "fst (getKey envOpenStack (OpenStackCloud ?w) ''key1'') \<noteq> NilDeref"
    and m: "fst (main envOpenStack [3, 4, 5, 0, 1, 2] (keyFlagOnly ''key1'')) \<noteq> Crash (''OpenStack'' @ nl)"
    by auto
  show ?thesis using v f d g m by (simp only: simp_thms)
qed

text \<open>
  C10. When the requested key is the empty string (no key flag, or the flag given an
  empty value), the run equals the run without the flag, its events are exactly those of
  detection (no key fetch), and it prints only the name of the first present probe with
  status 0, or UNKNOWN with status 1.
\<close>

theorem C10_empty_key_no_fetch:
  assumes "fst (runTasks e sched setupClouds) = Done cds"
      and "keyFlag args = None \<or> keyFlag args = Some []"
  shows "main e sched args = main e sched (args\<lparr>keyFlag := None\<rparr>)
       \<and> snd (main e sched args) = snd (runTasks e sched setupClouds)
       \<and> (case find isEffectiveCloud cds of
            None \<Rightarrow> fst (main e sched args) = Exit (''UNKNOWN'' @ nl) 1
          | Some w \<Rightarrow> fst (main e sched args) = Exit (cloudDescription w @ nl) 0)"
proof -
  let ?opts = "setupOptions setupClouds args"
  have k: "key ?opts = []"
    using assms(2) by (auto simp: setupOptions_def flag_value_def)
  have o: "setupOptions setupClouds (args\<lparr>keyFlag := None\<rparr>) = ?opts"
    using assms(2) by (auto simp: setupOptions_def flag_value_def)
  have a: "main e sched args = main e sched (args\<lparr>keyFlag := None\<rparr>)"
    unfolding main_def Let_def o by (rule refl)
  have s: "scan e ?opts cds =
      (case find isEffectiveCloud cds of
         None \<Rightarrow> (Exit (''UNKNOWN'' @ nl) 1, [])
       | Some w \<Rightarrow> (Exit (cloudDescription w @ nl) 0, []))"
    using k by (cases "find isEffectiveCloud cds") (simp_all add: scan_none scan_no_key)
  have b: "snd (main e sched args) = snd (runTasks e sched setupClouds)"
    using s by (simp add: snd_main[OF assms(1)] split: option.splits)
  have c: "case find isEffectiveCloud cds of
            None \<Rightarrow> fst (main e sched args) = Exit (''UNKNOWN'' @ nl) 1
          | Some w \<Rightarrow> fst (main e sched args) = Exit (cloudDescription w @ nl) 0"
    using s by (simp add: fst_main[OF assms(1)] split: option.splits)
  show ?thesis using a b c by (intro conjI)
qed

text \<open>
  On AWS, a key flag with an empty value: the same run as with no flag, AWS and status 0,
  and the six requests of detection only. With nothing reachable: UNKNOWN and status 1.
\<close>

theorem C10_witness:
  "fst (runTasks envAWS [0, 1, 2, 3, 4, 5] setupClouds) = Done (map (detected envAWS) setupClouds)
   \<and> keyFlag (keyFlagOnly []) = Some []
   \<and> main envAWS [0, 1, 2, 3, 4, 5] (keyFlagOnly []) = main envAWS [0, 1, 2, 3, 4, 5] noFlags
   \<and> main envAWS [0, 1, 2, 3, 4, 5] (keyFlagOnly []) =
       (Exit (''AWS'' @ nl) 0,
        [HttpGet ''http://169.254.169.254/latest/meta-data/instance-id'' [],
         HttpGet ''http://metadata.google.internal/'' [(''Metadata-Flavor'', ''Google'')],
         Stat ''/var/lib/waagent/ovf-env.xml'',
         HttpGet ''http://169.254.169.254/openstack/2012-08-10/meta_data.json'' [],
         HttpGet ''http://169.254.169.254/metadata/v1/id'' [],
         Stat ''/usr/sbin/mdata-get''])
   \<and> fst (main offline [0, 1, 2, 3, 4, 5] (keyFlagOnly [])) = Exit (''UNKNOWN'' @ nl) 1"
proof -
  have v: "valid_schedule (length setupClouds) [0, 1, 2, 3, 4, 5]"
    by (auto simp: valid_schedule_def setupClouds_def)
  have r: "fst (runTasks envAWS [0, 1, 2, 3, 4, 5] setupClouds) = Done (map (detected envAWS) setupClouds)"
    and r0: "fst (runTasks offline [0, 1, 2, 3, 4, 5] setupClouds) = Done (map (detected offline) setupClouds)"
    using v by (simp_all only: runTasks_valid)
  have kf: "keyFlag (keyFlagOnly []) = Some []"
    by (simp add: keyFlagOnly_def)
  then have h: "keyFlag (keyFlagOnly []) = None \<or> keyFlag (keyFlagOnly []) = Some []"
    by simp
  have n: "(keyFlagOnly [])\<lparr>keyFlag := None\<rparr> = noFlags"
    by (simp add: keyFlagOnly_def noFlags_def)
  have f: "find isEffectiveCloud (map (detected envAWS) setupClouds) = Some (detected envAWS NewAWSCloud)"
    by (simp add: probe_defs method_defs env_defs)
  have f0: "find isEffectiveCloud (map (detected offline) setupClouds) = None"
    by (simp add: probe_defs method_defs env_defs)
  have nm: "cloudDescription (detected envAWS NewAWSCloud) = ''AWS''"
    by (simp add: detected_name NewAWSCloud_def zeroSimpleUrlBasedCloud_def)
  have ev: "snd (runTasks envAWS [0, 1, 2, 3, 4, 5] setupClouds) =
        [HttpGet ''http://169.254.169.254/latest/meta-data/instance-id'' [],
         HttpGet ''http://metadata.google.internal/'' [(''Metadata-Flavor'', ''Google'')],
         Stat ''/var/lib/waagent/ovf-env.xml'',
         HttpGet ''http://169.254.169.254/openstack/2012-08-10/meta_data.json'' [],
         HttpGet ''http://169.254.169.254/metadata/v1/id'' [],
         Stat ''/usr/sbin/mdata-get'']"
    by (simp add: probe_defs method_defs env_defs)
  note c10 = C10_empty_key_no_fetch[OF r h]
  note c10a = c10[THEN conjunct1]
  note c10b = c10[THEN conjunct2, THEN conjunct1]
  note c10c = c10[THEN conjunct2, THEN conjunct2]
  from c10a have m1: "main envAWS [0, 1, 2, 3, 4, 5] (keyFlagOnly []) = main envAWS [0, 1, 2, 3, 4, 5] noFlags"
    by (simp only: n)
  from c10c have e1: "fst (main envAWS [0, 1, 2, 3, 4, 5] (keyFlagOnly [])) = Exit (''AWS'' @ nl) 0"
    by (simp only: f option.case nm)
  from c10b have e2: "snd (main envAWS [0, 1, 2, 3, 4, 5] (keyFlagOnly [])) = snd (runTasks envAWS [0, 1, 2, 3, 4, 5] setupClouds)" .
  have m2: "main envAWS [0, 1, 2, 3, 4, 5] (keyFlagOnly []) =
       (Exit (''AWS'' @ nl) 0,
        [HttpGet ''http://169.254.169.254/latest/meta-data/instance-id'' [],
         HttpGet ''http://metadata.google.internal/'' [(''Metadata-Flavor'', ''Google'')],
         Stat ''/var/lib/waagent/ovf-env.xml'',
         HttpGet ''http://169.254.169.254/openstack/2012-08-10/meta_data.json'' [],
         HttpGet ''http://169.254.169.254/metadata/v1/id'' [],
         Stat ''/usr/sbin/mdata-get''])"
    by (rule prod_eqI) (simp_all only: e1 e2 ev fst_conv snd_conv)
  from C10_empty_key_no_fetch[OF r0 h, THEN conjunct2, THEN conjunct2]
  have m3: "fst (main offline [0, 1, 2, 3, 4, 5] (keyFlagOnly [])) = Exit (''UNKNOWN'' @ nl) 1"
    by (simp only: f0 option.case)
  show ?thesis using r kf m1 m2 m3 by (intro conjI)
qed

end
